theory Spec2Isabelle
  imports Complex_Main "HOL-Library.Sublist"
begin

section \<open>Python values and the operations the alerting code applies to them\<close>

text \<open>
  The alerting process works on whatever \<^verbatim>\<open>json.load\<close> and \<^verbatim>\<open>response.json()\<close>
  hand it, so an earthquake, a feed payload and the recipient file are values of
  one type of decoded JSON. Python's \<^verbatim>\<open>int\<close> and \<^verbatim>\<open>float\<close> are both \<open>JNum\<close>: the code
  only compares numbers with literals, and a decimal literal of the source stands for
  the double it denotes (rounding of literals is monotone, so every comparison comes
  out as in the source; NaN and the infinities are left out). The one quotient the
  code forms, of an event's timestamp, goes to the platform's \<^verbatim>\<open>fromtimestamp\<close>, which
  is a parameter. A \<open>JObj\<close> lists the items of a Python \<^verbatim>\<open>dict\<close> in insertion order; a
  lookup takes the first match.
\<close>

datatype json =
    JNull
  | JBool bool
  | JNum real
  | JStr string
  | JArr "json list"
  | JObj "(string \<times> json) list"

datatype py_error =
    KeyError
  | IndexError
  | TypeError
  | AttributeError
  | OverflowError
  | ValueError
  | OSError
  | ModelError

text \<open>Sequencing of two steps of which the first may raise.\<close>

definition bnd :: "py_error + 'a \<Rightarrow> ('a \<Rightarrow> py_error + 'b) \<Rightarrow> py_error + 'b" where
  "bnd m f = (case m of Inl e \<Rightarrow> Inl e | Inr v \<Rightarrow> f v)"

text \<open>\<^verbatim>\<open>d[k]\<close> with a string key: only a dict can be subscripted by a string.\<close>

fun py_getitem :: "json \<Rightarrow> string \<Rightarrow> py_error + json" where
  "py_getitem (JObj kvs) k = (case map_of kvs k of None \<Rightarrow> Inl KeyError | Some v \<Rightarrow> Inr v)"
| "py_getitem _ k = Inl TypeError"

text \<open>\<^verbatim>\<open>d.get(k, default)\<close>: a method of dicts only.\<close>

fun py_get :: "json \<Rightarrow> string \<Rightarrow> json \<Rightarrow> py_error + json" where
  "py_get (JObj kvs) k dflt = Inr (case map_of kvs k of None \<Rightarrow> dflt | Some v \<Rightarrow> v)"
| "py_get _ k dflt = Inl AttributeError"

text \<open>\<^verbatim>\<open>len(x)\<close>.\<close>

fun py_len :: "json \<Rightarrow> py_error + nat" where
  "py_len (JArr xs) = Inr (length xs)"
| "py_len (JStr s) = Inr (length s)"
| "py_len (JObj kvs) = Inr (length kvs)"
| "py_len _ = Inl TypeError"

text \<open>
  \<^verbatim>\<open>x[i]\<close> with a literal index \<open>i \<ge> 0\<close>. A dict decoded from JSON has string keys
  only, so an integer subscript is a missing key.
\<close>

fun py_index :: "json \<Rightarrow> nat \<Rightarrow> py_error + json" where
  "py_index (JArr xs) i = (if i < length xs then Inr (xs ! i) else Inl IndexError)"
| "py_index (JStr s) i = (if i < length s then Inr (JStr [s ! i]) else Inl IndexError)"
| "py_index (JObj kvs) i = Inl KeyError"
| "py_index _ i = Inl TypeError"

text \<open>The number a value counts as in a comparison (\<^verbatim>\<open>True\<close> is 1, \<^verbatim>\<open>False\<close> is 0).\<close>

fun py_num :: "json \<Rightarrow> real option" where
  "py_num (JNum r) = Some r"
| "py_num (JBool b) = Some (if b then 1 else 0)"
| "py_num _ = None"

text \<open>\<^verbatim>\<open>x >= c\<close> and \<^verbatim>\<open>x < c\<close> against a number: ordering anything else is a TypeError.\<close>

definition py_ge :: "json \<Rightarrow> real \<Rightarrow> py_error + bool" where
  "py_ge x c = (case py_num x of None \<Rightarrow> Inl TypeError | Some r \<Rightarrow> Inr (c \<le> r))"

definition py_lt :: "json \<Rightarrow> real \<Rightarrow> py_error + bool" where
  "py_lt x c = (case py_num x of None \<Rightarrow> Inl TypeError | Some r \<Rightarrow> Inr (r < c))"

text \<open>\<^verbatim>\<open>x == c\<close> against a number never raises.\<close>

definition py_eq_num :: "json \<Rightarrow> real \<Rightarrow> bool" where
  "py_eq_num x c = (py_num x = Some c)"


section \<open>Feature preparation (email\_alert.py)\<close>

type_synonym row = "(string \<times> json) list"

text \<open>
  \<^verbatim>\<open>coords[i] if len(coords) > i else 0\<close>.
\<close>

definition coord_or :: "json \<Rightarrow> nat \<Rightarrow> json \<Rightarrow> py_error + json" where
  "coord_or coords i dflt =
     bnd (py_len coords) (\<lambda>n. if i < n then py_index coords i else Inr dflt)"

text \<open>
  The dict \<^verbatim>\<open>data\<close> of \<^verbatim>\<open>prepare_prediction_data\<close>, its entries evaluated in the
  order of the source.
\<close>

definition prediction_data :: "json \<Rightarrow> py_error + row" where
  "prediction_data earthquake =
     bnd (py_getitem earthquake ''properties'') (\<lambda>props.
     bnd (py_getitem earthquake ''geometry'') (\<lambda>geometry.
     bnd (py_getitem geometry ''coordinates'') (\<lambda>coords.
     bnd (py_get props ''mag'' (JNum 0)) (\<lambda>mag.
     bnd (coord_or coords 2 (JNum 0)) (\<lambda>depth.
     bnd (coord_or coords 1 (JNum 0)) (\<lambda>latitude.
     bnd (coord_or coords 0 (JNum 0)) (\<lambda>longitude.
     bnd (py_get props ''sig'' (JNum 0)) (\<lambda>sig.
     bnd (py_get props ''gap'' (JNum 0)) (\<lambda>gap.
     bnd (py_get props ''dmin'' (JNum 0)) (\<lambda>dmin.
     bnd (py_get props ''mmi'' (JNum 0)) (\<lambda>mmi.
       Inr [(''magnitude'', mag), (''depth'', depth), (''latitude'', latitude),
            (''longitude'', longitude), (''sig'', sig), (''gap'', gap),
            (''dmin'', dmin), (''mmi'', mmi)])))))))))))"

text \<open>
  \<^verbatim>\<open>prepare_prediction_data\<close>: a feature the dict lacks is a column of zeros, the
  columns are selected in the order of \<^verbatim>\<open>features\<close>, and every exception is caught
  and turned into \<^verbatim>\<open>None\<close>.
\<close>

definition prepare_prediction_data :: "string list \<Rightarrow> json \<Rightarrow> row option" where
  "prepare_prediction_data features earthquake =
     (case prediction_data earthquake of
        Inl e \<Rightarrow> None
      | Inr d \<Rightarrow>
          Some (map (\<lambda>f. (f, case map_of d f of None \<Rightarrow> JNum 0 | Some v \<Rightarrow> v)) features))"


section \<open>The risk scorer (email\_alert.py)\<close>

text \<open>
  The loaded model is a parameter: \<^verbatim>\<open>model.predict_proba(prediction_data)[0, 1]\<close>
  either yields a probability or raises. \<open>None\<close> is the module's \<^verbatim>\<open>model = None\<close>.
\<close>

type_synonym model = "row \<Rightarrow> py_error + real"

text \<open>
  The second component of the scorer's result is the message it returns; each
  constructor stands for one string of the source:
  \<^item> \<open>Official_alert\<close>: "Official tsunami alert already issued";
  \<^item> \<open>Very_high_magnitude m\<close>: "Very high magnitude (m) - high tsunami risk";
  \<^item> \<open>Model_prediction p\<close>: "Model prediction: p probability of tsunami";
  \<^item> \<open>Shallow_large\<close>: "Shallow large earthquake - moderate tsunami risk";
  \<^item> \<open>Moderate_earthquake\<close>: "Moderate earthquake - low tsunami risk";
  \<^item> \<open>Low_magnitude\<close>: "Low magnitude - very low tsunami risk".
\<close>

datatype reason =
    Official_alert
  | Very_high_magnitude json
  | Model_prediction real
  | Shallow_large
  | Moderate_earthquake
  | Low_magnitude

text \<open>
  The guarded block \<^verbatim>\<open>if model is not None: try: ... except Exception\<close>: \<open>Some p\<close> when
  it returns from the function, \<open>None\<close> when control falls through to the heuristics.
\<close>

definition model_path :: "model option \<Rightarrow> string list \<Rightarrow> json \<Rightarrow> real option" where
  "model_path mdl features earthquake =
     (case mdl of
        None \<Rightarrow> None
      | Some predict_proba \<Rightarrow>
          (case prepare_prediction_data features earthquake of
             None \<Rightarrow> None
           | Some d \<Rightarrow> (case predict_proba d of Inl e \<Rightarrow> None | Inr p \<Rightarrow> Some p)))"

text \<open>
  The fallback heuristics. \<^verbatim>\<open>and\<close> evaluates its right operand, and with it the
  subscript \<^verbatim>\<open>earthquake['geometry']['coordinates'][2]\<close>, only when the left one holds.
\<close>

definition heuristic :: "json \<Rightarrow> json \<Rightarrow> py_error + real \<times> reason" where
  "heuristic magnitude earthquake =
     bnd (py_ge magnitude 6.5) (\<lambda>large.
     bnd (if large
          then bnd (py_getitem earthquake ''geometry'') (\<lambda>geometry.
               bnd (py_getitem geometry ''coordinates'') (\<lambda>coords.
               bnd (py_index coords 2) (\<lambda>depth. py_lt depth 50)))
          else Inr False) (\<lambda>shallow_large.
       if shallow_large then Inr (0.7, Shallow_large)
       else bnd (py_ge magnitude 6.0) (\<lambda>moderate.
              if moderate then Inr (0.3, Moderate_earthquake)
              else Inr (0.1, Low_magnitude))))"

definition predict_tsunami_risk ::
    "model option \<Rightarrow> string list \<Rightarrow> json \<Rightarrow> py_error + real \<times> reason" where
  "predict_tsunami_risk mdl features earthquake =
     bnd (py_getitem earthquake ''properties'') (\<lambda>props.
     bnd (py_get props ''tsunami'' JNull) (\<lambda>flag.
       if py_eq_num flag 1 then Inr (1.0, Official_alert)
       else bnd (py_get props ''mag'' (JNum 0)) (\<lambda>magnitude.
            bnd (py_ge magnitude 7.5) (\<lambda>very_high.
              if very_high then Inr (0.9, Very_high_magnitude magnitude)
              else (case model_path mdl features earthquake of
                      Some probability \<Rightarrow> Inr (probability, Model_prediction probability)
                    | None \<Rightarrow> heuristic magnitude earthquake)))))"


section \<open>Formatting and sending an alert (email\_alert.py)\<close>

text \<open>
  The subject \<^verbatim>\<open>TSUNAMI ALERT [risk_level]: M{magnitude} Earthquake near {place}\<close>,
  kept as the three values the template interpolates.
\<close>

datatype subject = Tsunami_alert (subject_level: string) (subject_magnitude: json) (subject_place: json)

definition format_email_subject :: "json \<Rightarrow> real \<Rightarrow> py_error + subject" where
  "format_email_subject earthquake probability =
     bnd (py_getitem earthquake ''properties'') (\<lambda>props.
     bnd (py_get props ''mag'' (JNum 0)) (\<lambda>magnitude.
     bnd (py_getitem earthquake ''properties'') (\<lambda>props'.
     bnd (py_get props' ''place'' (JStr ''Unknown location'')) (\<lambda>place.
       Inr (Tsunami_alert
              (if probability \<ge> 0.7 then ''HIGH''
               else if probability \<ge> 0.4 then ''MEDIUM''
               else ''LOW'')
              magnitude place)))))"

text \<open>
  A naive local datetime, as \<^verbatim>\<open>datetime.now()\<close> and \<^verbatim>\<open>datetime.fromtimestamp\<close> return it:
  the number of microseconds of the local calendar date and time, counted from a fixed
  origin of that calendar. The difference of two of them is the \<^verbatim>\<open>timedelta\<close> of the
  source in microseconds, and \<^verbatim>\<open>total_seconds() > 1800\<close> holds exactly when that
  difference exceeds 1800000000 (the quotient by \<open>10\<^sup>6\<close> is rounded monotonically and
  1800 is a double).
\<close>

type_synonym naive_datetime = int

text \<open>
  \<^verbatim>\<open>datetime.datetime.fromtimestamp(time_ms/1000)\<close>. Dividing anything but a number is
  a TypeError. What the platform does with the quotient is a parameter: for the number
  \<open>x\<close>, \<open>platform x\<close> is what \<^verbatim>\<open>fromtimestamp\<close> returns for the double nearest to \<open>x\<close>,
  rounded to the microsecond and converted to local time by the rules of the local
  time zone, or the exception it raises there (OverflowError, OSError or ValueError
  for a timestamp or a year out of range).
\<close>

definition fromtimestamp_ms ::
    "(real \<Rightarrow> py_error + naive_datetime) \<Rightarrow> json \<Rightarrow> py_error + naive_datetime" where
  "fromtimestamp_ms platform time_ms =
     (case py_num time_ms of
        None \<Rightarrow> Inl TypeError
      | Some t \<Rightarrow> platform (t / 1000))"

text \<open>
  The two message bodies (HTML and plain text) interpolate the same values into fixed
  templates; the record holds those values. Each template ends with a footer that
  interpolates \<^verbatim>\<open>datetime.datetime.now()\<close>, read once for the HTML body and once more
  for the plain text.
\<close>

record body =
  body_mag :: json
  body_place :: json
  body_time :: naive_datetime
  body_depth :: json
  body_lat :: json
  body_lon :: json
  body_level :: string
  body_color :: string
  body_probability :: real
  body_reason :: reason
  body_generated_html :: naive_datetime
  body_generated_text :: naive_datetime

definition format_email_body ::
    "(real \<Rightarrow> py_error + naive_datetime) \<Rightarrow> naive_datetime \<times> naive_datetime
       \<Rightarrow> json \<Rightarrow> real \<Rightarrow> reason \<Rightarrow> py_error + body" where
  "format_email_body platform footers earthquake probability why =
     bnd (py_getitem earthquake ''properties'') (\<lambda>props.
     bnd (py_getitem earthquake ''geometry'') (\<lambda>geometry.
     bnd (py_getitem geometry ''coordinates'') (\<lambda>coords.
     bnd (py_get props ''time'' (JNum 0)) (\<lambda>time_ms.
     bnd (fromtimestamp_ms platform time_ms) (\<lambda>event_time.
     bnd (coord_or coords 1 (JNum 0)) (\<lambda>lat.
     bnd (coord_or coords 0 (JNum 0)) (\<lambda>lon.
     bnd (py_get props ''mag'' (JStr ''N/A'')) (\<lambda>mag.
     bnd (py_get props ''place'' (JStr ''Unknown'')) (\<lambda>place.
     bnd (coord_or coords 2 (JStr ''N/A'')) (\<lambda>depth.
       Inr \<lparr> body_mag = mag, body_place = place, body_time = event_time,
             body_depth = depth, body_lat = lat, body_lon = lon,
             body_level = (if probability \<ge> 0.7 then ''High''
                           else if probability \<ge> 0.4 then ''Medium'' else ''Low''),
             body_color = (if probability \<ge> 0.7 then ''#e74a3b''
                           else if probability \<ge> 0.4 then ''#f6c23e'' else ''#1cc88a''),
             body_probability = probability, body_reason = why,
             body_generated_html = fst footers,
             body_generated_text = snd footers \<rparr>))))))))))"

text \<open>
  The process-wide settings: the loaded model and feature list, the mail credentials,
  the check interval in minutes (the integer \<^verbatim>\<open>int\<close> made of the environment variable),
  and three things of the platform: its \<^verbatim>\<open>fromtimestamp\<close>, the longest interval in
  seconds its \<^verbatim>\<open>time.sleep\<close> accepts, and what the SMTP session of
  \<^verbatim>\<open>send_email_alert\<close> does with a message: \<open>Some True\<close> when it runs to its end,
  \<open>Some False\<close> when it raises, \<open>None\<close> when it never returns (the connection is
  opened without a timeout). A message carries the times at which its bodies were
  generated, so the server may answer one send of an alert and not the next.
\<close>

record config =
  model_of :: "model option"
  features_of :: "string list"
  EMAIL_USERNAME :: string
  EMAIL_PASSWORD :: string
  CHECK_INTERVAL_MINUTES :: int
  fromtimestamp :: "real \<Rightarrow> py_error + naive_datetime"
  sleep_max :: int
  smtp_session :: "json list \<Rightarrow> subject \<Rightarrow> body \<Rightarrow> bool option"

fun is_str :: "json \<Rightarrow> bool" where
  "is_str (JStr s) = True"
| "is_str _ = False"

text \<open>
  \<^verbatim>\<open>send_email_alert\<close>: without credentials nothing is sent; \<^verbatim>\<open>", ".join(recipients)\<close>
  raises on a recipient that is not a string; every exception is caught and reported
  as \<^verbatim>\<open>False\<close>. \<open>None\<close>: the call never returns.
\<close>

definition send_email_alert ::
    "config \<Rightarrow> json list \<Rightarrow> subject \<Rightarrow> body \<Rightarrow> bool option" where
  "send_email_alert cfg recipients subj content =
     (if EMAIL_USERNAME cfg = [] \<or> EMAIL_PASSWORD cfg = [] then Some False
      else if list_all is_str recipients then smtp_session cfg recipients subj content
      else Some False)"


section \<open>The recipient list (email\_alert.py)\<close>

text \<open>\<^verbatim>\<open>c in x\<close> for a one-character string \<open>c\<close>.\<close>

fun py_in_char :: "char \<Rightarrow> json \<Rightarrow> py_error + bool" where
  "py_in_char c (JStr s) = Inr (c \<in> set s)"
| "py_in_char c (JArr xs) = Inr (JStr [c] \<in> set xs)"
| "py_in_char c (JObj kvs) = Inr ([c] \<in> set (map fst kvs))"
| "py_in_char c _ = Inl TypeError"

text \<open>What a \<^verbatim>\<open>for\<close> loop or a comprehension iterates over.\<close>

fun py_iter :: "json \<Rightarrow> py_error + json list" where
  "py_iter (JArr xs) = Inr xs"
| "py_iter (JStr s) = Inr (map (\<lambda>c. JStr [c]) s)"
| "py_iter (JObj kvs) = Inr (map (\<lambda>kv. JStr (fst kv)) kvs)"
| "py_iter _ = Inl TypeError"

text \<open>
  The comprehension \<^verbatim>\<open>[email for email in emails if '@' in email and '.' in email]\<close>.
\<close>

fun valid_emails :: "json list \<Rightarrow> py_error + json list" where
  "valid_emails [] = Inr []"
| "valid_emails (email # emails) =
     bnd (py_in_char CHR ''@'' email) (\<lambda>has_at.
     bnd (if has_at then py_in_char CHR ''.'' email else Inr False) (\<lambda>keep.
     bnd (valid_emails emails) (\<lambda>others.
       Inr (if keep then email # others else others))))"

definition default_emails :: "json list" where
  "default_emails = [JStr ''speakup189@gmail.com'', JStr ''ankity1892003@gmail.com'']"

text \<open>
  \<^verbatim>\<open>load_email_recipients\<close>. The file \<^verbatim>\<open>emails.txt\<close> is \<open>None\<close> when opening or decoding
  it raises, and its decoded content otherwise. The result is the recipient list and
  the file as the call leaves it: the fallback writes the default list back when the
  file can be written.
\<close>

definition load_email_recipients :: "json option \<Rightarrow> bool \<Rightarrow> json list \<times> json option" where
  "load_email_recipients emails_txt writable =
     (let fallback = (default_emails,
                      if writable then Some (JArr default_emails) else emails_txt)
      in case emails_txt of
           None \<Rightarrow> fallback
         | Some emails \<Rightarrow>
             (case bnd (py_iter emails) valid_emails of
                Inl e \<Rightarrow> fallback
              | Inr valid \<Rightarrow> (valid, emails_txt)))"


section \<open>The fetcher (email\_alert.py)\<close>

datatype url = USGS_API_URL | BACKUP_API_URL

text \<open>
  What \<^verbatim>\<open>requests.get\<close> does for a URL: it raises (a transport error or a timeout), or
  it answers with a status code and a payload; the payload is \<open>None\<close> when
  \<^verbatim>\<open>response.json()\<close> raises on it.
\<close>

datatype http_reply = Raises | Reply int "json option"

text \<open>
  \<^verbatim>\<open>fetch_earthquake_data\<close>, with the requests it made in the order it made them.
  Python's \<^verbatim>\<open>None\<close> is \<open>JNull\<close>. One \<^verbatim>\<open>try\<close> encloses the whole body.
\<close>

definition fetch_earthquake_data :: "(url \<Rightarrow> http_reply) \<Rightarrow> json \<times> url list" where
  "fetch_earthquake_data net =
     (case net USGS_API_URL of
        Raises \<Rightarrow> (JNull, [USGS_API_URL])
      | Reply status_code payload \<Rightarrow>
          if status_code = 200
          then (case payload of
                  None \<Rightarrow> (JNull, [USGS_API_URL])
                | Some data \<Rightarrow> (data, [USGS_API_URL]))
          else (case net BACKUP_API_URL of
                  Raises \<Rightarrow> (JNull, [USGS_API_URL, BACKUP_API_URL])
                | Reply backup_status backup_payload \<Rightarrow>
                    if backup_status = 200
                    then (case backup_payload of
                            None \<Rightarrow> (JNull, [USGS_API_URL, BACKUP_API_URL])
                          | Some data \<Rightarrow> (data, [USGS_API_URL, BACKUP_API_URL]))
                    else (JNull, [USGS_API_URL, BACKUP_API_URL])))"


section \<open>One cycle and the scheduling loop (email\_alert.py)\<close>

text \<open>\<^verbatim>\<open>not x\<close>.\<close>

fun py_falsy :: "json \<Rightarrow> bool" where
  "py_falsy JNull = True"
| "py_falsy (JBool b) = (\<not> b)"
| "py_falsy (JNum r) = (r = 0)"
| "py_falsy (JStr s) = (s = [])"
| "py_falsy (JArr xs) = (xs = [])"
| "py_falsy (JObj kvs) = (kvs = [])"

text \<open>
  What one pass of the loop body of \<^verbatim>\<open>process_earthquakes\<close> does with an earthquake:
  \<^item> \<open>Skipped_old\<close>: the \<^verbatim>\<open>continue\<close> for an event older than 30 minutes;
  \<^item> \<open>Below_gate p why\<close>: scored, and nothing formatted or sent;
  \<^item> \<open>Attempt subj content ok\<close>: subject and bodies formatted and handed to
    \<^verbatim>\<open>send_email_alert\<close>, which returned \<open>ok\<close> (\<open>None\<close>: it never returned);
  \<^item> \<open>Event_error e\<close>: an exception reached the \<^verbatim>\<open>except\<close> clause of the loop body.
\<close>

datatype outcome =
    Skipped_old
  | Below_gate real reason
  | Attempt subject body "bool option"
  | Event_error py_error

text \<open>
  The loop body. \<open>now\<close> is the reading of \<^verbatim>\<open>datetime.now()\<close> in the loop body, \<open>footers\<close>
  the two readings taken while the bodies are formatted.
\<close>

definition process_event ::
    "config \<Rightarrow> json list \<Rightarrow> naive_datetime \<Rightarrow> naive_datetime \<times> naive_datetime
       \<Rightarrow> json \<Rightarrow> outcome" where
  "process_event cfg recipients now footers earthquake =
     (case
        bnd (py_getitem earthquake ''properties'') (\<lambda>props.
        bnd (py_get props ''time'' (JNum 0)) (\<lambda>time_ms.
        bnd (fromtimestamp_ms (fromtimestamp cfg) time_ms) (\<lambda>event_time.
          if now - event_time > 1800000000 then Inr Skipped_old
          else
            bnd (predict_tsunami_risk (model_of cfg) (features_of cfg) earthquake) (\<lambda>assessed.
              case assessed of (probability, why) \<Rightarrow>
                if probability \<ge> 0.4
                then bnd (format_email_subject earthquake probability) (\<lambda>subj.
                     bnd (format_email_body (fromtimestamp cfg) footers earthquake
                            probability why)
                       (\<lambda>content.
                         Inr (Attempt subj content
                                (send_email_alert cfg recipients subj content))))
                else Inr (Below_gate probability why)))))
      of Inl e \<Rightarrow> Event_error e | Inr out \<Rightarrow> out)"

fun sent :: "outcome \<Rightarrow> bool" where
  "sent (Attempt subj content ok) = (ok = Some True)"
| "sent _ = False"

fun hangs :: "outcome \<Rightarrow> bool" where
  "hangs (Attempt subj content ok) = (ok = None)"
| "hangs _ = False"

text \<open>
  The \<^verbatim>\<open>for\<close> loop over the features. The clock is read for each event: \<open>clock i\<close> is the
  reading in the loop body for the event at position \<open>i\<close>, \<open>footer_clock i\<close> the two
  readings in its bodies. A send that never returns is the last thing the loop does.
\<close>

fun process_loop ::
    "config \<Rightarrow> json list \<Rightarrow> (nat \<Rightarrow> naive_datetime)
       \<Rightarrow> (nat \<Rightarrow> naive_datetime \<times> naive_datetime) \<Rightarrow> nat \<Rightarrow> json list \<Rightarrow> outcome list" where
  "process_loop cfg recipients clock footer_clock i [] = []"
| "process_loop cfg recipients clock footer_clock i (earthquake # rest) =
     (let out = process_event cfg recipients (clock i) (footer_clock i) earthquake
      in if hangs out then [out]
         else out # process_loop cfg recipients clock footer_clock (Suc i) rest)"

text \<open>
  What a cycle meets outside the process: the answers of the two feeds, whether
  \<^verbatim>\<open>emails.txt\<close> can be written, and the clock.
\<close>

record cycle_input =
  requests_get :: "url \<Rightarrow> http_reply"
  emails_writable :: bool
  datetime_now :: "nat \<Rightarrow> naive_datetime"
  footer_now :: "nat \<Rightarrow> naive_datetime \<times> naive_datetime"

text \<open>
  How a cycle went: it returned at the first \<^verbatim>\<open>return\<close> (no data), at the second (no
  recipients), or after the loop, with the outcome of every event and the counter
  \<^verbatim>\<open>alerts_sent\<close> (incremented once per successful send); or it never returned, stuck
  in the send of the last outcome listed.
\<close>

datatype report =
    No_data
  | No_recipients
  | Processed "outcome list" nat
  | Stuck "outcome list"

text \<open>
  \<^verbatim>\<open>process_earthquakes\<close>: \<open>Inl\<close> is an exception leaving the function. The result holds
  the report, the requests made, and \<^verbatim>\<open>emails.txt\<close> as the cycle leaves it.
\<close>

definition process_earthquakes ::
    "config \<Rightarrow> json option \<Rightarrow> cycle_input \<Rightarrow> py_error + report \<times> url list \<times> json option" where
  "process_earthquakes cfg emails_txt w =
     (case fetch_earthquake_data (requests_get w) of (earthquake_data, reqs) \<Rightarrow>
        if py_falsy earthquake_data then Inr (No_data, reqs, emails_txt)
        else
          bnd (py_getitem earthquake_data ''features'') (\<lambda>found.
          bnd (py_len found) (\<lambda>n.
            case load_email_recipients emails_txt (emails_writable w) of
              (recipients, emails_txt') \<Rightarrow>
                if recipients = [] then Inr (No_recipients, reqs, emails_txt')
                else
                  bnd (py_getitem earthquake_data ''features'') (\<lambda>feats.
                  bnd (py_iter feats) (\<lambda>earthquakes.
                    let outcomes = process_loop cfg recipients (datetime_now w)
                                     (footer_now w) 0 earthquakes
                    in if list_ex hangs outcomes
                       then Inr (Stuck outcomes, reqs, emails_txt')
                       else Inr (Processed outcomes (length (filter sent outcomes)),
                                 reqs, emails_txt'))))))"







section \<open>Risk levels of the dashboard (tsunami\_dashboard.py)\<close>

text \<open>The chain of comparisons in the loop over the probabilities.\<close>

definition risk_level :: "real \<Rightarrow> string" where
  "risk_level prob =
     (if prob < 0.2 then ''Very Low''
      else if prob < 0.4 then ''Low''
      else if prob < 0.6 then ''Moderate''
      else if prob < 0.8 then ''High''
      else ''Very High'')"

text \<open>
  \<^verbatim>\<open>predict_tsunami_risk\<close> of the dashboard. The parameter stands for preparing the
  frame and calling \<^verbatim>\<open>model.predict\<close> and \<^verbatim>\<open>model.predict_proba\<close> on it: the column
  of probabilities, or an exception.
\<close>

definition dashboard_predict_tsunami_risk ::
    "(row list \<Rightarrow> py_error + real list) option \<Rightarrow> row list \<Rightarrow> string list" where
  "dashboard_predict_tsunami_risk mdl df =
     (case mdl of
        None \<Rightarrow> replicate (length df) ''N/A''
      | Some probabilities \<Rightarrow>
          (case probabilities df of
             Inl e \<Rightarrow> replicate (length df) ''Error''
           | Inr probs \<Rightarrow> map risk_level probs))"

text \<open>The position of a level in the scale from lowest to highest risk.\<close>

definition level_rank :: "string \<Rightarrow> nat" where
  "level_rank level =
     (if level = ''Very Low'' then 0
      else if level = ''Low'' then 1
      else if level = ''Moderate'' then 2
      else if level = ''High'' then 3
      else 4)"


section \<open>Example inputs\<close>

text \<open>
  The event of the specification's scenario (magnitude 7.8, official tsunami flag 1,
  place "Test") with an identifier and a timestamp; it has no geometry.
\<close>

definition official_event :: json where
  "official_event =
     JObj [(''id'', JStr ''us7000test''),
           (''properties'',
              JObj [(''mag'', JNum 7.8), (''tsunami'', JNum 1), (''place'', JStr ''Test''),
                    (''time'', JNum 1700000000000)])]"

text \<open>A magnitude 7.6 event without the official flag, 20 km deep.\<close>

definition great_event :: json where
  "great_event =
     JObj [(''id'', JStr ''us7000great''),
           (''properties'',
              JObj [(''mag'', JNum 7.6), (''tsunami'', JNum 0), (''place'', JStr ''Offshore''),
                    (''time'', JNum 1700000000000)]),
           (''geometry'', JObj [(''coordinates'', JArr [JNum 142.3, JNum 38.1, JNum 20])])]"

text \<open>A magnitude 6.7 event whose position has longitude and latitude only.\<close>

definition flat_event :: json where
  "flat_event =
     JObj [(''id'', JStr ''us7000flat''),
           (''properties'',
              JObj [(''mag'', JNum 6.7), (''tsunami'', JNum 0), (''place'', JStr ''Offshore''),
                    (''time'', JNum 1700000000000)]),
           (''geometry'', JObj [(''coordinates'', JArr [JNum 142.3, JNum 38.1])])]"

text \<open>A magnitude 6.7 event 10 km deep: the heuristics score it 0.7.\<close>

definition shallow_event :: json where
  "shallow_event =
     JObj [(''id'', JStr ''us7000shallow''),
           (''properties'',
              JObj [(''mag'', JNum 6.7), (''tsunami'', JNum 0), (''place'', JStr ''Offshore''),
                    (''time'', JNum 1700000000000)]),
           (''geometry'', JObj [(''coordinates'', JArr [JNum 142.3, JNum 38.1, JNum 10])])]"

text \<open>A model that is loaded and raises on every row, and one that answers 0.4.\<close>

definition failing_model :: model where
  "failing_model d = Inl ModelError"

definition model_04 :: model where
  "model_04 d = Inr 0.4"


text \<open>
  A platform whose local time is UTC and that accepts the timestamps of the years 1970
  to 9999. The timestamps of the examples are whole milliseconds, so rounding to the
  microsecond plays no part in them.
\<close>

definition utc_fromtimestamp :: "real \<Rightarrow> py_error + naive_datetime" where
  "utc_fromtimestamp x =
     (if 0 \<le> x \<and> x < 253402300800 then Inr (\<lfloor>x * 1000000\<rfloor>) else Inl ValueError)"

text \<open>
  Settings with credentials, no model, a check every 15 minutes, and a mail server that
  accepts every message.
\<close>

definition demo_config :: config where
  "demo_config =
     \<lparr> model_of = None, features_of = [''magnitude'', ''depth''],
       EMAIL_USERNAME = ''alerts@example.org'', EMAIL_PASSWORD = ''app-password'',
       CHECK_INTERVAL_MINUTES = 15,
       fromtimestamp = utc_fromtimestamp, sleep_max = 9223372036,
       smtp_session = (\<lambda>recipients subj content. Some True) \<rparr>"

text \<open>The same settings with the model that answers 0.4.\<close>

definition model_config :: config where
  "model_config = demo_config \<lparr> model_of := Some model_04 \<rparr>"

text \<open>The primary feed is unreachable, or answers 200 with a payload that is not JSON;
  the backup feed is up in both cases.\<close>

definition primary_down :: "url \<Rightarrow> http_reply" where
  "primary_down u =
     (case u of
        USGS_API_URL \<Rightarrow> Raises
      | BACKUP_API_URL \<Rightarrow> Reply 200 (Some (JObj [(''features'', JArr [great_event])])))"

definition primary_garbled :: "url \<Rightarrow> http_reply" where
  "primary_garbled u =
     (case u of
        USGS_API_URL \<Rightarrow> Reply 200 None
      | BACKUP_API_URL \<Rightarrow> Reply 200 (Some (JObj [(''features'', JArr [great_event])])))"


text \<open>The primary feed lists the magnitude 7.6 event.\<close>

definition feed_up :: "url \<Rightarrow> http_reply" where
  "feed_up u =
     Reply 200 (Some (JObj [(''type'', JStr ''FeatureCollection''),
                            (''features'', JArr [great_event])]))"


text \<open>The primary feed answers 200 with a JSON object that has no 'features' entry.\<close>

definition feed_featureless :: "url \<Rightarrow> http_reply" where
  "feed_featureless u = Reply 200 (Some (JObj [(''type'', JStr ''FeatureCollection'')]))"

text \<open>
  Cycles one minute and sixteen minutes after the events' timestamp; the bodies of an
  alert are formatted half a second after the clock was read in the loop body.
\<close>

definition first_cycle :: cycle_input where
  "first_cycle = \<lparr> requests_get = feed_up, emails_writable = True,
                   datetime_now = (\<lambda>i. 1700000060000000),
                   footer_now = (\<lambda>i. (1700000060500000, 1700000060500000)) \<rparr>"




definition featureless_cycle :: cycle_input where
  "featureless_cycle = \<lparr> requests_get = feed_featureless, emails_writable = True,
                         datetime_now = (\<lambda>i. 1700000060000000),
                         footer_now = (\<lambda>i. (1700000060500000, 1700000060500000)) \<rparr>"


text \<open>A recipient file with one entry that is no address.\<close>

definition emails_file :: json where
  "emails_file = JArr [JStr ''ops@example.org'', JStr ''not-an-address'', JStr ''duty@example.net'']"


section \<open>Predicates of the statements\<close>

text \<open>The check of the recipient filter: \<^verbatim>\<open>'@' in email and '.' in email\<close> holds.\<close>

definition contains_at_and_dot :: "json \<Rightarrow> bool" where
  "contains_at_and_dot v =
     (py_in_char CHR ''@'' v = Inr True \<and> py_in_char CHR ''.'' v = Inr True)"





section \<open>Properties of the risk scorer\<close>

lemma bnd_Inr [simp]: "bnd (Inr v) f = f v"
  by (simp add: bnd_def)

lemma bnd_Inl [simp]: "bnd (Inl e) f = Inl e"
  by (simp add: bnd_def)

text \<open>
  Claim C1. An event whose properties carry a tsunami flag equal to 1 is scored 1.0
  with the official-alert message, whatever its magnitude, its geometry, the feature
  list and the model (loaded or not, raising or not): the rule is decided before any
  other rule is looked at.
\<close>

theorem official_override_first:
  assumes "py_getitem earthquake ''properties'' = Inr props"
    and "py_get props ''tsunami'' JNull = Inr flag"
    and "py_eq_num flag 1"
  shows "predict_tsunami_risk mdl features earthquake = Inr (1, Official_alert)"
  using assms by (simp add: predict_tsunami_risk_def)

theorem official_override_first_witness:
  "py_getitem official_event ''properties''
     = Inr (JObj [(''mag'', JNum 7.8), (''tsunami'', JNum 1), (''place'', JStr ''Test''),
                  (''time'', JNum 1700000000000)])
   \<and> py_get (JObj [(''mag'', JNum 7.8), (''tsunami'', JNum 1), (''place'', JStr ''Test''),
                    (''time'', JNum 1700000000000)]) ''tsunami'' JNull = Inr (JNum 1)
   \<and> py_eq_num (JNum 1) 1
   \<and> predict_tsunami_risk (Some model_04) [''magnitude'', ''depth''] official_event
     = Inr (1, Official_alert)"
proof -
  have h1: "py_getitem official_event ''properties''
     = Inr (JObj [(''mag'', JNum 7.8), (''tsunami'', JNum 1), (''place'', JStr ''Test''),
                  (''time'', JNum 1700000000000)])"
    by (simp add: official_event_def)
  have h2: "py_get (JObj [(''mag'', JNum 7.8), (''tsunami'', JNum 1), (''place'', JStr ''Test''),
                    (''time'', JNum 1700000000000)]) ''tsunami'' JNull = Inr (JNum 1)"
    by simp
  have h3: "py_eq_num (JNum 1) 1"
    by (simp add: py_eq_num_def)
  show ?thesis
    using h1 h2 h3 official_override_first [OF h1 h2 h3] by blast
qed

text \<open>
  Claim C2. An event whose flag is not equal to 1 (or is absent) and whose magnitude is
  at least 7.5 is scored 0.9 with the very-high-magnitude message, for every model,
  loaded or not.
\<close>

theorem magnitude_override:
  assumes "py_getitem earthquake ''properties'' = Inr props"
    and "py_get props ''tsunami'' JNull = Inr flag"
    and "\<not> py_eq_num flag 1"
    and "py_get props ''mag'' (JNum 0) = Inr magnitude"
    and "py_ge magnitude 7.5 = Inr True"
  shows "predict_tsunami_risk mdl features earthquake = Inr (0.9, Very_high_magnitude magnitude)"
  using assms by (simp add: predict_tsunami_risk_def)

theorem magnitude_override_witness:
  "py_getitem great_event ''properties''
     = Inr (JObj [(''mag'', JNum 7.6), (''tsunami'', JNum 0), (''place'', JStr ''Offshore''),
                  (''time'', JNum 1700000000000)])
   \<and> \<not> py_eq_num (JNum 0) 1
   \<and> py_ge (JNum 7.6) 7.5 = Inr True
   \<and> predict_tsunami_risk (Some model_04) [''magnitude'', ''depth''] great_event
     = Inr (0.9, Very_high_magnitude (JNum 7.6))
   \<and> predict_tsunami_risk None [] great_event = Inr (0.9, Very_high_magnitude (JNum 7.6))"
proof -
  have h1: "py_getitem great_event ''properties''
     = Inr (JObj [(''mag'', JNum 7.6), (''tsunami'', JNum 0), (''place'', JStr ''Offshore''),
                  (''time'', JNum 1700000000000)])"
    by (simp add: great_event_def)
  have h2: "py_get (JObj [(''mag'', JNum 7.6), (''tsunami'', JNum 0), (''place'', JStr ''Offshore''),
                  (''time'', JNum 1700000000000)]) ''tsunami'' JNull = Inr (JNum 0)"
    by simp
  have h3: "\<not> py_eq_num (JNum 0) 1"
    by (simp add: py_eq_num_def)
  have h4: "py_get (JObj [(''mag'', JNum 7.6), (''tsunami'', JNum 0), (''place'', JStr ''Offshore''),
                  (''time'', JNum 1700000000000)]) ''mag'' (JNum 0) = Inr (JNum 7.6)"
    by simp
  have h5: "py_ge (JNum 7.6) 7.5 = Inr True"
    by (simp add: py_ge_def)
  show ?thesis
    using h1 h3 h5 magnitude_override [OF h1 h2 h3 h4 h5] by blast
qed

text \<open>
  The heuristics on a numeric magnitude \<open>m\<close>: when the depth is consulted (\<open>m \<ge> 6.5\<close>)
  and is a number \<open>d\<close>, or is not consulted at all, the three branches are those of the
  specification.
\<close>

lemma heuristic_thresholds:
  assumes "py_num magnitude = Some m"
    and "6.5 \<le> m \<longrightarrow>
           (\<exists>geometry coords depth.
              py_getitem earthquake ''geometry'' = Inr geometry
              \<and> py_getitem geometry ''coordinates'' = Inr coords
              \<and> py_index coords 2 = Inr depth \<and> py_num depth = Some d)"
  shows "heuristic magnitude earthquake =
           Inr (if 6.5 \<le> m \<and> d < 50 then (0.7, Shallow_large)
                else if 6.0 \<le> m then (0.3, Moderate_earthquake)
                else (0.1, Low_magnitude))"
  using assms by (auto simp: heuristic_def py_ge_def py_lt_def)

lemma heuristic_short_coordinates:
  assumes "py_num magnitude = Some m" and "6.5 \<le> m"
    and "py_getitem earthquake ''geometry'' = Inr geometry"
    and "py_getitem geometry ''coordinates'' = Inr (JArr coords)"
    and "length coords < 3"
  shows "heuristic magnitude earthquake = Inl IndexError"
  using assms by (simp add: heuristic_def py_ge_def)

text \<open>
  Claim C3. With no override and no model, the heuristics are to return 0.7, 0.3 or 0.1.
  For the magnitude 6.7 event whose position has no third coordinate the scorer
  returns nothing: the subscript \<^verbatim>\<open>coordinates[2]\<close> raises IndexError.
\<close>

theorem heuristic_raises_without_depth:
  "predict_tsunami_risk None [''magnitude'', ''depth''] flat_event = Inl IndexError"
  by (simp add: predict_tsunami_risk_def flat_event_def py_eq_num_def py_ge_def
      model_path_def heuristic_def)

text \<open>
  The guarded model block falls through exactly when no model is loaded, feature
  preparation failed, or the model raised on the prepared row.
\<close>

lemma model_path_None:
  "(model_path mdl features earthquake = None) =
     (mdl = None
      \<or> prepare_prediction_data features earthquake = None
      \<or> (\<exists>predict_proba d e. mdl = Some predict_proba
             \<and> prepare_prediction_data features earthquake = Some d
             \<and> predict_proba d = Inl e))"
  by (auto simp: model_path_def split: option.splits sum.splits)

text \<open>
  Claim C9. For an event without the official flag, with magnitude in [6.5, 7.5), for
  which the guarded model block falls through (\<open>model_path\<close> is \<open>None\<close>: no model,
  or the model raised) and whose coordinate list has fewer than three elements, the
  scorer raises IndexError, while feature preparation of the same event succeeds with
  depth 0.
\<close>

theorem heuristic_partial_in_coordinates:
  assumes "py_getitem earthquake ''properties'' = Inr props"
    and "py_get props ''tsunami'' JNull = Inr flag"
    and "\<not> py_eq_num flag 1"
    and "py_get props ''mag'' (JNum 0) = Inr magnitude"
    and "py_num magnitude = Some m" and "6.5 \<le> m" and "m < 7.5"
    and "model_path mdl features earthquake = None"
    and "py_getitem earthquake ''geometry'' = Inr geometry"
    and "py_getitem geometry ''coordinates'' = Inr (JArr coords)"
    and "length coords < 3"
  shows "predict_tsunami_risk mdl features earthquake = Inl IndexError
         \<and> (\<exists>d. prediction_data earthquake = Inr d \<and> map_of d ''depth'' = Some (JNum 0))"
proof -
  have "heuristic magnitude earthquake = Inl IndexError"
    using assms(5,6,9,10,11) by (rule heuristic_short_coordinates)
  moreover have "py_ge magnitude 7.5 = Inr False"
    using assms(5,7) by (simp add: py_ge_def)
  ultimately have scorer: "predict_tsunami_risk mdl features earthquake = Inl IndexError"
    using assms(1-4,8) by (simp add: predict_tsunami_risk_def)
  obtain kvs where props: "props = JObj kvs"
    using assms(2) by (cases props) simp_all
  have "\<exists>d. prediction_data earthquake = Inr d \<and> map_of d ''depth'' = Some (JNum 0)"
    using assms(1,9,10,11) props
    by (simp add: prediction_data_def coord_or_def)
  with scorer show ?thesis by simp
qed

theorem heuristic_partial_in_coordinates_witness:
  "model_path (Some failing_model) [''magnitude'', ''depth''] flat_event = None
   \<and> py_getitem flat_event ''geometry'' = Inr (JObj [(''coordinates'', JArr [JNum 142.3, JNum 38.1])])
   \<and> length [JNum 142.3, JNum 38.1] < 3
   \<and> predict_tsunami_risk (Some failing_model) [''magnitude'', ''depth''] flat_event = Inl IndexError
   \<and> (\<exists>d. prediction_data flat_event = Inr d \<and> map_of d ''depth'' = Some (JNum 0))"
proof -
  let ?props = "JObj [(''mag'', JNum 6.7), (''tsunami'', JNum 0), (''place'', JStr ''Offshore''),
                      (''time'', JNum 1700000000000)]"
  let ?geometry = "JObj [(''coordinates'', JArr [JNum 142.3, JNum 38.1])]"
  have h1: "py_getitem flat_event ''properties'' = Inr ?props"
    by (simp add: flat_event_def)
  have h2: "py_get ?props ''tsunami'' JNull = Inr (JNum 0)"
    by simp
  have h3: "\<not> py_eq_num (JNum 0) 1"
    by (simp add: py_eq_num_def)
  have h4: "py_get ?props ''mag'' (JNum 0) = Inr (JNum 6.7)"
    by simp
  have h5: "py_num (JNum 6.7) = Some 6.7"
    by simp
  have h6: "(6.5::real) \<le> 6.7"
    by simp
  have h7: "(6.7::real) < 7.5"
    by simp
  have h8: "model_path (Some failing_model) [''magnitude'', ''depth''] flat_event = None"
    by (simp add: model_path_def failing_model_def split: option.split)
  have h9: "py_getitem flat_event ''geometry'' = Inr ?geometry"
    by (simp add: flat_event_def)
  have h10: "py_getitem ?geometry ''coordinates'' = Inr (JArr [JNum 142.3, JNum 38.1])"
    by simp
  have h11: "length [JNum 142.3, JNum 38.1] < 3"
    by simp
  show ?thesis
    using h8 h9 h11 heuristic_partial_in_coordinates [OF h1 h2 h3 h4 h5 h6 h7 h8 h9 h10 h11]
    by blast
qed


section \<open>Properties of the fetcher\<close>

text \<open>
  The fetcher asks the backup feed exactly when the primary answers with a status
  other than 200, and then returns the backup's payload if that answer is a 200 with
  a decodable payload.
\<close>

lemma fetch_backup_on_status:
  assumes "net USGS_API_URL = Reply status_code payload" and "status_code \<noteq> 200"
  shows "snd (fetch_earthquake_data net) = [USGS_API_URL, BACKUP_API_URL]
       \<and> fst (fetch_earthquake_data net) =
           (case net BACKUP_API_URL of
              Reply backup_status (Some data) \<Rightarrow> if backup_status = 200 then data else JNull
            | _ \<Rightarrow> JNull)"
  using assms by (simp add: fetch_earthquake_data_def split: http_reply.split option.split)

text \<open>
  Claim C7. The fetcher is to try the backup feed when the primary fails by a
  transport error or a malformed payload as well. With the primary unreachable, or
  answering 200 with a payload that does not decode, and the backup up, it returns
  \<^verbatim>\<open>None\<close> after the single request to the primary, and the cycle is skipped.
\<close>

theorem fetch_gives_up_without_backup:
  "fetch_earthquake_data primary_down = (JNull, [USGS_API_URL])
   \<and> fetch_earthquake_data primary_garbled = (JNull, [USGS_API_URL])
   \<and> process_earthquakes demo_config None (first_cycle \<lparr> requests_get := primary_down \<rparr>)
       = Inr (No_data, [USGS_API_URL], None)"
  by (simp add: fetch_earthquake_data_def primary_down_def primary_garbled_def
      process_earthquakes_def)


section \<open>Properties of the dashboard's risk levels\<close>

text \<open>
  Claim C5. On [0, 1] the level of a probability is Very Low on [0, 0.2), Low on
  [0.2, 0.4), Moderate on [0.4, 0.6), High on [0.6, 0.8) and Very High on [0.8, 1];
  every probability gets one of the five levels, a larger probability never gets a
  lower level, each of 0.2, 0.4, 0.6 and 0.8 gets the level of the interval it opens,
  and the dashboard's scorer applies this mapping to each probability of the model.
\<close>

theorem risk_level_intervals:
  assumes "0 \<le> p" and "p \<le> 1" and "0 \<le> q" and "q \<le> 1"
  shows "(risk_level p = ''Very Low'') = (p \<in> {0..<0.2})
       \<and> (risk_level p = ''Low'') = (p \<in> {0.2..<0.4})
       \<and> (risk_level p = ''Moderate'') = (p \<in> {0.4..<0.6})
       \<and> (risk_level p = ''High'') = (p \<in> {0.6..<0.8})
       \<and> (risk_level p = ''Very High'') = (p \<in> {0.8..1})
       \<and> risk_level p \<in> {''Very Low'', ''Low'', ''Moderate'', ''High'', ''Very High''}
       \<and> (p \<le> q \<longrightarrow> level_rank (risk_level p) \<le> level_rank (risk_level q))
       \<and> risk_level 0.2 = ''Low'' \<and> risk_level 0.4 = ''Moderate''
       \<and> risk_level 0.6 = ''High'' \<and> risk_level 0.8 = ''Very High''
       \<and> (probabilities df = Inr [p, q] \<longrightarrow>
            dashboard_predict_tsunami_risk (Some probabilities) df
              = [risk_level p, risk_level q])"
proof -
  have a: "(risk_level p = ''Very Low'') = (p \<in> {0..<0.2})"
    using assms by (simp add: risk_level_def)
  have b: "(risk_level p = ''Low'') = (p \<in> {0.2..<0.4})"
    using assms by (simp add: risk_level_def)
  have c: "(risk_level p = ''Moderate'') = (p \<in> {0.4..<0.6})"
    using assms by (simp add: risk_level_def)
  have d: "(risk_level p = ''High'') = (p \<in> {0.6..<0.8})"
    using assms by (simp add: risk_level_def)
  have e: "(risk_level p = ''Very High'') = (p \<in> {0.8..1})"
    using assms by (simp add: risk_level_def)
  have f: "risk_level p \<in> {''Very Low'', ''Low'', ''Moderate'', ''High'', ''Very High''}"
    by (simp add: risk_level_def)
  have g: "p \<le> q \<longrightarrow> level_rank (risk_level p) \<le> level_rank (risk_level q)"
    by (simp add: risk_level_def level_rank_def)
  have h: "risk_level 0.2 = ''Low'' \<and> risk_level 0.4 = ''Moderate''
       \<and> risk_level 0.6 = ''High'' \<and> risk_level 0.8 = ''Very High''"
    by (simp add: risk_level_def)
  have i: "probabilities df = Inr [p, q] \<longrightarrow>
            dashboard_predict_tsunami_risk (Some probabilities) df
              = [risk_level p, risk_level q]"
    by (simp add: dashboard_predict_tsunami_risk_def)
  from a b c d e f g h i show ?thesis by blast
qed

theorem risk_level_intervals_witness:
  "(0::real) \<le> 0.4 \<and> (0.4::real) \<le> 1 \<and> (0::real) \<le> 0.8 \<and> (0.8::real) \<le> 1
   \<and> risk_level 0.4 = ''Moderate'' \<and> risk_level 0.8 = ''Very High''
   \<and> level_rank (risk_level 0.4) \<le> level_rank (risk_level 0.8)
   \<and> dashboard_predict_tsunami_risk (Some (\<lambda>df. Inr [0.4, 0.8])) [[], []]
       = [''Moderate'', ''Very High'']"
proof -
  have h1: "(0::real) \<le> 0.4" by simp
  have h2: "(0.4::real) \<le> 1" by simp
  have h3: "(0::real) \<le> 0.8" by simp
  have h4: "(0.8::real) \<le> 1" by simp
  have le: "(0.4::real) \<le> 0.8" by simp
  note levels = risk_level_intervals [OF h1 h2 h3 h4, of "\<lambda>df. Inr [0.4, 0.8]" "[[], []]"]
  have moderate: "risk_level 0.4 = ''Moderate''"
    using levels by simp
  have very_high: "risk_level 0.8 = ''Very High''"
    using levels by simp
  have rank: "level_rank (risk_level 0.4) \<le> level_rank (risk_level 0.8)"
    using levels le by blast
  have frame: "dashboard_predict_tsunami_risk (Some (\<lambda>df. Inr [0.4, 0.8])) [[], []]
       = [''Moderate'', ''Very High'']"
    using levels moderate very_high by simp
  from h1 h2 h3 h4 moderate very_high rank frame show ?thesis by blast
qed


section \<open>Properties of the recipient list\<close>

lemma valid_emails_filter:
  "valid_emails xs = Inr vs \<Longrightarrow> vs = filter contains_at_and_dot xs"
proof (induction xs arbitrary: vs)
  case Nil
  then show ?case by simp
next
  case (Cons x xs)
  from Cons.prems obtain a where a: "py_in_char CHR ''@'' x = Inr a"
    by (cases "py_in_char CHR ''@'' x") simp_all
  from Cons.prems a obtain k where k: "(if a then py_in_char CHR ''.'' x else Inr False) = Inr k"
    by (cases "if a then py_in_char CHR ''.'' x else Inr False") simp_all
  from Cons.prems a k obtain others where others: "valid_emails xs = Inr others"
    by (cases "valid_emails xs") simp_all
  have keep: "k = contains_at_and_dot x"
    using a k by (cases a) (auto simp: contains_at_and_dot_def)
  have "vs = (if k then x # others else others)"
    using Cons.prems a k others by simp
  with Cons.IH [OF others] keep show ?case by simp
qed

lemma default_emails_valid: "list_all contains_at_and_dot default_emails"
  by (simp add: default_emails_def contains_at_and_dot_def)

text \<open>
  Claim C10. Every element of the list \<^verbatim>\<open>load_email_recipients\<close> returns passes the
  check for '@' and '.'; for a string this says that both characters occur in it. On
  the read path (the file decodes, can be iterated, and no test raises) the result is
  the file's list filtered by the check, so the order of the file is kept; on every
  other path it is the default pair.
\<close>

theorem recipients_contain_at_and_dot:
  assumes "load_email_recipients emails_txt writable = (recipients, emails_txt')"
  shows "(\<forall>v \<in> set recipients. contains_at_and_dot v)
       \<and> (\<forall>s. JStr s \<in> set recipients \<longrightarrow> CHR ''@'' \<in> set s \<and> CHR ''.'' \<in> set s)
       \<and> (\<forall>emails xs vs.
             emails_txt = Some emails \<and> py_iter emails = Inr xs \<and> valid_emails xs = Inr vs
             \<longrightarrow> recipients = filter contains_at_and_dot xs \<and> subseq recipients xs)
       \<and> ((\<forall>emails xs vs.
              \<not> (emails_txt = Some emails \<and> py_iter emails = Inr xs \<and> valid_emails xs = Inr vs))
             \<longrightarrow> recipients = default_emails)"
proof -
  have paths:
    "(\<exists>emails xs. emails_txt = Some emails \<and> py_iter emails = Inr xs
         \<and> valid_emails xs = Inr recipients)
     \<or> ((\<forall>emails xs vs.
            \<not> (emails_txt = Some emails \<and> py_iter emails = Inr xs \<and> valid_emails xs = Inr vs))
         \<and> recipients = default_emails)"
    using assms
    by (auto simp: load_email_recipients_def Let_def bnd_def split: option.splits sum.splits)
  have every: "\<forall>v \<in> set recipients. contains_at_and_dot v"
    using paths default_emails_valid
    by (auto dest!: valid_emails_filter simp: list_all_iff)
  have strings: "\<forall>s. JStr s \<in> set recipients \<longrightarrow> CHR ''@'' \<in> set s \<and> CHR ''.'' \<in> set s"
    using every by (auto simp: contains_at_and_dot_def)
  have order: "\<forall>emails xs vs.
             emails_txt = Some emails \<and> py_iter emails = Inr xs \<and> valid_emails xs = Inr vs
             \<longrightarrow> recipients = filter contains_at_and_dot xs \<and> subseq recipients xs"
    using paths by (auto dest: valid_emails_filter)
  have fallback: "(\<forall>emails xs vs.
              \<not> (emails_txt = Some emails \<and> py_iter emails = Inr xs \<and> valid_emails xs = Inr vs))
             \<longrightarrow> recipients = default_emails"
    using paths by blast
  from every strings order fallback show ?thesis by blast
qed

theorem recipients_contain_at_and_dot_witness:
  "load_email_recipients (Some emails_file) True
     = ([JStr ''ops@example.org'', JStr ''duty@example.net''], Some emails_file)
   \<and> contains_at_and_dot (JStr ''ops@example.org'')
   \<and> contains_at_and_dot (JStr ''duty@example.net'')
   \<and> CHR ''@'' \<in> set ''ops@example.org'' \<and> CHR ''.'' \<in> set ''ops@example.org''
   \<and> [JStr ''ops@example.org'', JStr ''duty@example.net'']
       = filter contains_at_and_dot
           [JStr ''ops@example.org'', JStr ''not-an-address'', JStr ''duty@example.net'']"
proof -
  have h: "load_email_recipients (Some emails_file) True
     = ([JStr ''ops@example.org'', JStr ''duty@example.net''], Some emails_file)"
    by (simp add: load_email_recipients_def emails_file_def)
  have it: "py_iter emails_file
     = Inr [JStr ''ops@example.org'', JStr ''not-an-address'', JStr ''duty@example.net'']"
    by (simp add: emails_file_def)
  have va: "valid_emails [JStr ''ops@example.org'', JStr ''not-an-address'', JStr ''duty@example.net'']
     = Inr [JStr ''ops@example.org'', JStr ''duty@example.net'']"
    by simp
  note checked = recipients_contain_at_and_dot [OF h]
  have every: "\<forall>v \<in> set [JStr ''ops@example.org'', JStr ''duty@example.net''].
                 contains_at_and_dot v"
    using checked by blast
  have c1: "contains_at_and_dot (JStr ''ops@example.org'')"
    using every by simp
  have c2: "contains_at_and_dot (JStr ''duty@example.net'')"
    using every by simp
  have chars: "CHR ''@'' \<in> set ''ops@example.org'' \<and> CHR ''.'' \<in> set ''ops@example.org''"
    using c1 by (simp add: contains_at_and_dot_def)
  have kept: "[JStr ''ops@example.org'', JStr ''duty@example.net'']
       = filter contains_at_and_dot
           [JStr ''ops@example.org'', JStr ''not-an-address'', JStr ''duty@example.net'']"
    using checked it va by blast
  from h c1 c2 chars kept show ?thesis by blast
qed


section \<open>Properties of a cycle and of the loop\<close>

lemma coord_or_JArr: "\<exists>v. coord_or (JArr cs) i dflt = Inr v"
  by (simp add: coord_or_def)

lemma format_email_subject_label:
  assumes "py_getitem earthquake ''properties'' = Inr (JObj kvs)"
  shows "\<exists>magnitude place. format_email_subject earthquake x =
           Inr (Tsunami_alert
                  (if x \<ge> 0.7 then ''HIGH'' else if x \<ge> 0.4 then ''MEDIUM'' else ''LOW'')
                  magnitude place)"
  using assms by (simp add: format_email_subject_def)

lemma format_email_body_returns:
  assumes "py_getitem earthquake ''properties'' = Inr (JObj kvs)"
    and "py_get (JObj kvs) ''time'' (JNum 0) = Inr time_ms"
    and "fromtimestamp_ms platform time_ms = Inr event_time"
    and "py_getitem earthquake ''geometry'' = Inr geometry"
    and "py_getitem geometry ''coordinates'' = Inr (JArr coords)"
  shows "\<exists>content. format_email_body platform footers earthquake x why = Inr content"
proof -
  obtain lat where lat: "coord_or (JArr coords) 1 (JNum 0) = Inr lat"
    using coord_or_JArr by blast
  obtain lon where lon: "coord_or (JArr coords) 0 (JNum 0) = Inr lon"
    using coord_or_JArr by blast
  obtain depth where depth: "coord_or (JArr coords) 2 (JStr ''N/A'') = Inr depth"
    using coord_or_JArr by blast
  have t: "(case map_of kvs ''time'' of None \<Rightarrow> JNum 0 | Some v \<Rightarrow> v) = time_ms"
    using assms(2) by simp
  show ?thesis
    using assms(1,3,4,5) lat lon depth t
    by (simp add: format_email_body_def)
qed


text \<open>The loop body on an event inside the recency window that the scorer assessed.\<close>

lemma process_event_recent:
  assumes "py_getitem earthquake ''properties'' = Inr props"
    and "py_get props ''time'' (JNum 0) = Inr time_ms"
    and "fromtimestamp_ms (fromtimestamp cfg) time_ms = Inr event_time"
    and "now - event_time \<le> 1800000000"
    and "predict_tsunami_risk (model_of cfg) (features_of cfg) earthquake = Inr (probability, why)"
  shows "process_event cfg recipients now footers earthquake =
           (if probability \<ge> 0.4
            then (case bnd (format_email_subject earthquake probability) (\<lambda>subj.
                       bnd (format_email_body (fromtimestamp cfg) footers earthquake
                              probability why)
                         (\<lambda>content. Inr (Attempt subj content
                                            (send_email_alert cfg recipients subj content))))
                  of Inl e \<Rightarrow> Event_error e | Inr out \<Rightarrow> out)
            else Below_gate probability why)"
  using assms by (simp add: process_event_def)

text \<open>
  Claim C4, as amended. For an event inside the recency window that the scorer
  assessed with probability \<open>p\<close> and whose coordinates are a list (so that the body can
  be formatted): it is formatted and handed to \<^verbatim>\<open>send_email_alert\<close> if and only if
  \<open>p \<ge> 0.4\<close>; below 0.4 nothing is formatted or sent; the subject of an alert is
  labelled HIGH for \<open>p \<ge> 0.7\<close> and MEDIUM otherwise, so an event with \<open>p = 0.4\<close> is sent
  with the label MEDIUM; and \<^verbatim>\<open>format_email_subject\<close> itself labels any probability
  HIGH from 0.7, MEDIUM from 0.4 and LOW below.
\<close>

theorem gate_and_subject_label:
  assumes "py_getitem earthquake ''properties'' = Inr props"
    and "py_get props ''time'' (JNum 0) = Inr time_ms"
    and "fromtimestamp_ms (fromtimestamp cfg) time_ms = Inr event_time"
    and "now - event_time \<le> 1800000000"
    and "predict_tsunami_risk (model_of cfg) (features_of cfg) earthquake = Inr (probability, why)"
    and "py_getitem earthquake ''geometry'' = Inr geometry"
    and "py_getitem geometry ''coordinates'' = Inr (JArr coords)"
  shows "(\<exists>subj content ok.
            process_event cfg recipients now footers earthquake = Attempt subj content ok)
           = (probability \<ge> 0.4)
       \<and> (probability < 0.4 \<longrightarrow>
            process_event cfg recipients now footers earthquake = Below_gate probability why)
       \<and> (\<forall>subj content ok.
            process_event cfg recipients now footers earthquake = Attempt subj content ok \<longrightarrow>
            subject_level subj = (if probability \<ge> 0.7 then ''HIGH'' else ''MEDIUM'')
            \<and> ok = send_email_alert cfg recipients subj content)
       \<and> (probability = 0.4 \<longrightarrow>
            (\<exists>magnitude place content ok.
               process_event cfg recipients now footers earthquake
                 = Attempt (Tsunami_alert ''MEDIUM'' magnitude place) content ok))
       \<and> (\<forall>x. \<exists>magnitude place. format_email_subject earthquake x =
            Inr (Tsunami_alert
                   (if x \<ge> 0.7 then ''HIGH'' else if x \<ge> 0.4 then ''MEDIUM'' else ''LOW'')
                   magnitude place))"
proof -
  obtain kvs where props: "props = JObj kvs"
    using assms(2) by (cases props) simp_all
  have p: "py_getitem earthquake ''properties'' = Inr (JObj kvs)"
    using assms(1) props by simp
  have q: "py_get (JObj kvs) ''time'' (JNum 0) = Inr time_ms"
    using assms(2) props by simp
  obtain magnitude place where subj:
    "format_email_subject earthquake probability =
       Inr (Tsunami_alert (if probability \<ge> 0.7 then ''HIGH''
                           else if probability \<ge> 0.4 then ''MEDIUM'' else ''LOW'')
              magnitude place)"
    using format_email_subject_label [OF p] by blast
  obtain content where content:
    "format_email_body (fromtimestamp cfg) footers earthquake probability why = Inr content"
    using format_email_body_returns [OF p q assms(3,6,7)] by blast
  have step: "process_event cfg recipients now footers earthquake =
      (if probability \<ge> 0.4
       then Attempt (Tsunami_alert (if probability \<ge> 0.7 then ''HIGH'' else ''MEDIUM'')
                       magnitude place)
              content
              (send_email_alert cfg recipients
                 (Tsunami_alert (if probability \<ge> 0.7 then ''HIGH'' else ''MEDIUM'')
                    magnitude place)
                 content)
       else Below_gate probability why)"
    using process_event_recent [OF assms(1-5)] subj content by simp
  have a: "(\<exists>subj content ok.
              process_event cfg recipients now footers earthquake = Attempt subj content ok)
           = (probability \<ge> 0.4)"
    using step by simp
  have b: "probability < 0.4 \<longrightarrow>
            process_event cfg recipients now footers earthquake = Below_gate probability why"
    using step by simp
  have c: "\<forall>subj content ok.
            process_event cfg recipients now footers earthquake = Attempt subj content ok \<longrightarrow>
            subject_level subj = (if probability \<ge> 0.7 then ''HIGH'' else ''MEDIUM'')
            \<and> ok = send_email_alert cfg recipients subj content"
    using step by (auto split: if_splits)
  have d: "probability = 0.4 \<longrightarrow>
            (\<exists>magnitude place content ok.
               process_event cfg recipients now footers earthquake
                 = Attempt (Tsunami_alert ''MEDIUM'' magnitude place) content ok)"
    using step by simp
  have e: "\<forall>x. \<exists>magnitude place. format_email_subject earthquake x =
            Inr (Tsunami_alert
                   (if x \<ge> 0.7 then ''HIGH'' else if x \<ge> 0.4 then ''MEDIUM'' else ''LOW'')
                   magnitude place)"
    using format_email_subject_label [OF p] by blast
  from a b c d e show ?thesis by blast
qed

lemma example_event_time:
  "fromtimestamp_ms utc_fromtimestamp (JNum 1700000000000) = Inr 1700000000000000"
  by (simp add: fromtimestamp_ms_def utc_fromtimestamp_def)

theorem gate_and_subject_label_witness:
  "predict_tsunami_risk (model_of model_config) (features_of model_config) shallow_event
     = Inr (0.4, Model_prediction 0.4)
   \<and> fromtimestamp_ms (fromtimestamp model_config) (JNum 1700000000000)
       = Inr 1700000000000000
   \<and> (1700000060000000::int) - 1700000000000000 \<le> 1800000000
   \<and> py_getitem shallow_event ''geometry''
       = Inr (JObj [(''coordinates'', JArr [JNum 142.3, JNum 38.1, JNum 10])])
   \<and> (\<exists>magnitude place content ok.
         process_event model_config default_emails 1700000060000000
             (1700000060500000, 1700000060500000) shallow_event
           = Attempt (Tsunami_alert ''MEDIUM'' magnitude place) content ok)"
proof -
  let ?props = "JObj [(''mag'', JNum 6.7), (''tsunami'', JNum 0), (''place'', JStr ''Offshore''),
                      (''time'', JNum 1700000000000)]"
  let ?geometry = "JObj [(''coordinates'', JArr [JNum 142.3, JNum 38.1, JNum 10])]"
  have h1: "py_getitem shallow_event ''properties'' = Inr ?props"
    by (simp add: shallow_event_def)
  have h2: "py_get ?props ''time'' (JNum 0) = Inr (JNum 1700000000000)"
    by simp
  have h3: "fromtimestamp_ms (fromtimestamp model_config) (JNum 1700000000000)
              = Inr 1700000000000000"
    using example_event_time by (simp add: model_config_def demo_config_def)
  have h4: "(1700000060000000::int) - 1700000000000000 \<le> 1800000000"
    by simp
  have prep: "\<exists>d. prepare_prediction_data [''magnitude'', ''depth''] shallow_event = Some d"
    by (simp add: prepare_prediction_data_def prediction_data_def shallow_event_def coord_or_def)
  have h5: "predict_tsunami_risk (model_of model_config) (features_of model_config) shallow_event
     = Inr (0.4, Model_prediction 0.4)"
    using prep
    by (auto simp: predict_tsunami_risk_def model_config_def demo_config_def shallow_event_def
        py_eq_num_def py_ge_def model_path_def model_04_def)
  have h6: "py_getitem shallow_event ''geometry'' = Inr ?geometry"
    by (simp add: shallow_event_def)
  have h7: "py_getitem ?geometry ''coordinates'' = Inr (JArr [JNum 142.3, JNum 38.1, JNum 10])"
    by simp
  show ?thesis
    using h3 h4 h5 h6
      gate_and_subject_label [OF h1 h2 h3 h4 h5 h6 h7, of default_emails
        "(1700000060500000, 1700000060500000)"]
    by blast
qed

text \<open>
  Claim C4 as stated fails on an event whose body cannot be formatted: the event of the
  official-flag scenario has no geometry, is assessed 1.0, and is not sent, because
  \<^verbatim>\<open>format_email_body\<close> raises KeyError and the loop body's handler drops the event.
\<close>

theorem dispatch_needs_geometry:
  "predict_tsunami_risk (model_of demo_config) (features_of demo_config) official_event
     = Inr (1, Official_alert)
   \<and> (0.4::real) \<le> 1
   \<and> process_event demo_config default_emails 1700000060000000
         (1700000060500000, 1700000060500000) official_event
       = Event_error KeyError"
  by (simp add: predict_tsunami_risk_def process_event_def official_event_def demo_config_def
      py_eq_num_def fromtimestamp_ms_def utc_fromtimestamp_def format_email_subject_def
      format_email_body_def)














lemma process_loop_shorter:
  "length (process_loop cfg recipients clock footer_clock i earthquakes) \<le> length earthquakes"
  by (induction earthquakes arbitrary: i) (simp_all add: Let_def)








text \<open>
  The read of 'features' at the head of \<^verbatim>\<open>process_earthquakes\<close> stands outside the
  guard of the loop body: a payload with status 200 that has no such entry makes the
  cycle raise KeyError.
\<close>

lemma featureless_payload_raises:
  "process_earthquakes demo_config None featureless_cycle = Inl KeyError"
  by (simp add: process_earthquakes_def fetch_earthquake_data_def featureless_cycle_def
      feed_featureless_def)

end
